theory Spec2Isabelle
  imports Complex_Main "HOL-Library.Sublist"
begin

section \<open>Numbers, strings and thrown values\<close>

text \<open>
  A JavaScript \<^verbatim>\<open>number\<close> and a Swift \<^verbatim>\<open>Double\<close> are IEEE doubles. The code
  only compares scores with the literals 1 and 10, tests them for integrality and copies
  them, so a finite double is read as the real number it denotes; the three non-finite
  values are kept apart, since every comparison with NaN is false.
\<close>

datatype number = Finite real | NaN | PosInf | NegInf

fun num_le :: "number \<Rightarrow> number \<Rightarrow> bool" where
  "num_le NaN _ = False"
| "num_le _ NaN = False"
| "num_le NegInf _ = True"
| "num_le _ PosInf = True"
| "num_le (Finite a) (Finite b) = (a \<le> b)"
| "num_le PosInf _ = False"
| "num_le _ NegInf = False"

definition num_ge :: "number \<Rightarrow> number \<Rightarrow> bool" where
  "num_ge a b = num_le b a"

text \<open>\<^verbatim>\<open>Number.isInteger\<close>: false for NaN and the infinities, true for a finite value
  with no fractional part.\<close>

fun Number_isInteger :: "number \<Rightarrow> bool" where
  "Number_isInteger (Finite r) = (of_int \<lfloor>r\<rfloor> = r)"
| "Number_isInteger _ = False"

text \<open>\<^verbatim>\<open>String.prototype.includes\<close>: the argument occurs as a contiguous substring.\<close>

fun string_includes :: "string \<Rightarrow> string \<Rightarrow> bool" where
  "string_includes [] sub = (sub = [])"
| "string_includes (c # cs) sub = (prefix sub (c # cs) \<or> string_includes cs sub)"

text \<open>
  What a JavaScript \<^verbatim>\<open>catch\<close> receives: an instance of \<^verbatim>\<open>Error\<close> with its message,
  or any other thrown value.
\<close>

datatype thrown = Error string | NonError string

section \<open>The TypeScript wrapper: utils/workoutEffort.ts\<close>

text \<open>
  \<^verbatim>\<open>return Number.isInteger(score) && score >= 1 && score <= 10\<close>
\<close>

definition isValidWorkoutEffortScore :: "number \<Rightarrow> bool" where
  "isValidWorkoutEffortScore score =
     (Number_isInteger score \<and> num_ge score (Finite 1) \<and> num_le score (Finite 10))"

text \<open>
  The \<^verbatim>\<open>WorkoutProxy\<close> handed to the wrapper is a native object; its two asynchronous
  methods are parameters of the model. Each takes the world \<open>'w\<close> behind the proxy and
  returns the settled promise (\<open>Inl\<close> a rejection, \<open>Inr\<close> the value) with the new world.
\<close>

record 'w WorkoutProxy =
  native_getWorkoutEffortScore :: "'w \<Rightarrow> (thrown + number option) \<times> 'w"
  native_setWorkoutEffortScore :: "number \<Rightarrow> 'w \<Rightarrow> (thrown + bool) \<times> 'w"

text \<open>
  The test of both \<^verbatim>\<open>catch\<close> blocks:
  \<^verbatim>\<open>error instanceof Error && error.message.includes('unrecognized selector')\<close>
\<close>

fun is_unrecognized_selector :: "thrown \<Rightarrow> bool" where
  "is_unrecognized_selector (Error message) = string_includes message ''unrecognized selector''"
| "is_unrecognized_selector (NonError _) = False"

definition getWorkoutEffortScore ::
  "'w WorkoutProxy \<Rightarrow> 'w \<Rightarrow> (thrown + number option) \<times> 'w" where
  "getWorkoutEffortScore workout w =
     (case native_getWorkoutEffortScore workout w of
        (Inr v, w') \<Rightarrow> (Inr v, w')
      | (Inl error, w') \<Rightarrow>
          if is_unrecognized_selector error then (Inr None, w') else (Inl error, w'))"

text \<open>
  The two errors the wrapper creates itself. The template literal prints the score; the
  printing of a number is JavaScript's own and is the parameter \<open>toString\<close>.
\<close>

definition invalid_score_error :: "(number \<Rightarrow> string) \<Rightarrow> number \<Rightarrow> thrown" where
  "invalid_score_error toString score =
     Error (''Invalid workout effort score: '' @ toString score @
            ''. Score must be an integer between 1 and 10.'')"

definition unsupported_error :: thrown where
  "unsupported_error =
     Error (''Workout effort scores are only available on iOS 18.0 and later. '' @
            ''Please check the iOS version before using this feature.'')"

definition setWorkoutEffortScore ::
  "(number \<Rightarrow> string) \<Rightarrow> 'w WorkoutProxy \<Rightarrow> number \<Rightarrow> 'w \<Rightarrow> (thrown + bool) \<times> 'w" where
  "setWorkoutEffortScore toString workout score w =
     (if \<not> isValidWorkoutEffortScore score then (Inl (invalid_score_error toString score), w)
      else
        (case native_setWorkoutEffortScore workout score w of
           (Inr v, w') \<Rightarrow> (Inr v, w')
         | (Inl error, w') \<Rightarrow>
             if is_unrecognized_selector error then (Inl unsupported_error, w')
             else (Inl error, w')))"

text \<open>
  \<^verbatim>\<open>isWorkoutEffortSupported\<close> takes no argument and its body is \<^verbatim>\<open>return true\<close>. The
  platform it runs on, an iOS version (major, minor), is made an explicit argument so that
  the dependence on it can be stated.
\<close>

type_synonym os_version = "nat \<times> nat"

definition isWorkoutEffortSupported :: "os_version \<Rightarrow> bool" where
  "isWorkoutEffortSupported platform = True"

text \<open>
  A proxy that counts the calls of its native methods: the world is paired with a counter
  that each native call increments. The wrapper itself is not changed.
\<close>

definition counting :: "'w WorkoutProxy \<Rightarrow> ('w \<times> nat) WorkoutProxy" where
  "counting workout =
     \<lparr> native_getWorkoutEffortScore =
         (\<lambda>(w, n). case native_getWorkoutEffortScore workout w of (r, w') \<Rightarrow> (r, (w', Suc n))),
       native_setWorkoutEffortScore =
         (\<lambda>score (w, n).
            case native_setWorkoutEffortScore workout score w of (r, w') \<Rightarrow> (r, (w', Suc n))) \<rparr>"

section \<open>The native layer: ios/WorkoutProxy.swift\<close>

subsection \<open>Errors and the ways an asynchronous function can end\<close>

text \<open>
  A Swift error is the module's \<^verbatim>\<open>RuntimeError.error(withMessage:)\<close> or an error of
  the health store. An \<^verbatim>\<open>async\<close> function returns, throws, traps (a fatal error: a
  forced \<^verbatim>\<open>try!\<close> that met an error, or a checked continuation resumed twice), or
  stays suspended for ever when its continuation is never resumed.
\<close>

datatype swift_error = RuntimeError string | HKError string

datatype trap = ForcedTry swift_error | ContinuationMisuse

datatype 'a outcome = Returned 'a | Threw swift_error | Trapped trap | Suspended

text \<open>\<^verbatim>\<open>Promise.async { ... }\<close>: the promise of an asynchronous body.\<close>

datatype 'a promise = Fulfilled 'a | Rejected swift_error | Crashed trap | Pending

fun Promise_async :: "'a outcome \<Rightarrow> 'a promise" where
  "Promise_async (Returned v) = Fulfilled v"
| "Promise_async (Threw e) = Rejected e"
| "Promise_async (Trapped t) = Crashed t"
| "Promise_async Suspended = Pending"

text \<open>
  A \<^verbatim>\<open>CheckedContinuation\<close>: the first \<^verbatim>\<open>resume\<close> settles it, a later one is a
  misuse, which a checked continuation turns into a trap.
\<close>

datatype 'a continuation = Awaiting | Resumed "swift_error + 'a" | Misused

fun resume :: "swift_error + 'a \<Rightarrow> 'a continuation \<Rightarrow> 'a continuation" where
  "resume r Awaiting = Resumed r"
| "resume r (Resumed _) = Misused"
| "resume r Misused = Misused"

subsection \<open>Platform types\<close>

type_synonym Date = real

record CLLocation =
  cl_altitude :: real
  cl_course :: real
  cl_timestamp :: Date
  cl_horizontalAccuracy :: real
  cl_latitude :: real
  cl_longitude :: real
  cl_speed :: real
  cl_speedAccuracy :: real
  cl_verticalAccuracy :: real

record WorkoutRouteLocation =
  altitude :: real
  course :: real
  date :: Date
  distance :: "real option"
  horizontalAccuracy :: real
  latitude :: real
  longitude :: real
  speed :: real
  speedAccuracy :: real
  verticalAccuracy :: real

record HKWorkout =
  workout_uuid :: string
  startDate :: Date
  endDate :: Date

datatype metadata_value = MetaString string | MetaNumber real

type_synonym HKMetadata = "(string \<times> metadata_value) list"

record HKWorkoutRoute =
  route_uuid :: string
  route_metadata :: "HKMetadata option"

text \<open>
  A quantity sample as the effort code builds and reads it: the value in the effort-score
  unit and the interval it is anchored to.
\<close>

record HKQuantitySample =
  quantity :: number
  sample_start :: Date
  sample_end :: Date

datatype HKSample =
  QuantitySample HKQuantitySample
| RouteSample HKWorkoutRoute
| OtherSample string

record WorkoutRoute =
  locations :: "WorkoutRouteLocation list"
  HKMetadataKeySyncIdentifier :: "string option"
  HKMetadataKeySyncVersion :: "real option"

text \<open>
  \<^verbatim>\<open>serializeMetadata\<close> and the \<^verbatim>\<open>AnyMap\<close> it returns are not part of these source
  files; they are parameters of the route code.
\<close>

record 'a metadata_api =
  serializeMetadata :: "HKMetadata option \<Rightarrow> 'a"
  getString :: "'a \<Rightarrow> string \<Rightarrow> string option"
  getDouble :: "'a \<Rightarrow> string \<Rightarrow> real option"

subsection \<open>Routes\<close>

text \<open>
  What the health store does with the two route queries is a parameter: the arguments
  (samples, error) its completion handler receives for the anchored query of a workout, and
  the successive invocations (locationsOrNil, done, errorOrNil) of the handler of a route
  query.
\<close>

type_synonym route_callback = "CLLocation list option \<times> bool \<times> swift_error option"

record route_store =
  anchoredObjectQuery :: "HKWorkout \<Rightarrow> HKSample list option \<times> swift_error option"
  workoutRouteQuery :: "HKWorkoutRoute \<Rightarrow> route_callback list"

text \<open>
  \<^verbatim>\<open>samples as? [HKWorkoutRoute]\<close>: the conditional cast of an array succeeds when every
  element is of the target class, and is \<^verbatim>\<open>nil\<close> otherwise.
\<close>

fun as_HKWorkoutRoute :: "HKSample \<Rightarrow> HKWorkoutRoute option" where
  "as_HKWorkoutRoute (RouteSample r) = Some r"
| "as_HKWorkoutRoute _ = None"

fun as_HKWorkoutRoutes :: "HKSample list \<Rightarrow> HKWorkoutRoute list option" where
  "as_HKWorkoutRoutes [] = Some []"
| "as_HKWorkoutRoutes (s # ss) =
     (case as_HKWorkoutRoute s of
        None \<Rightarrow> None
      | Some r \<Rightarrow> (case as_HKWorkoutRoutes ss of None \<Rightarrow> None | Some rs \<Rightarrow> Some (r # rs)))"

definition getWorkoutRoutesInternal ::
  "route_store \<Rightarrow> HKWorkout \<Rightarrow> HKWorkoutRoute list option outcome" where
  "getWorkoutRoutesInternal store workout =
     (case anchoredObjectQuery store workout of
        (_, Some hasError) \<Rightarrow> Threw hasError
      | (None, None) \<Rightarrow> Threw (RuntimeError ''Empty response'')
      | (Some samples, None) \<Rightarrow> Returned (as_HKWorkoutRoutes samples))"

text \<open>
  The handler of the route query, one invocation: it works on the captured
  \<^verbatim>\<open>allLocations\<close> and the continuation.
\<close>

fun route_handler ::
  "CLLocation list \<times> CLLocation list continuation \<Rightarrow> route_callback \<Rightarrow>
   CLLocation list \<times> CLLocation list continuation" where
  "route_handler (allLocations, k) (_, _, Some error) = (allLocations, resume (Inl error) k)"
| "route_handler (allLocations, k) (None, _, None) =
     (allLocations, resume (Inl (RuntimeError ''Empty response'')) k)"
| "route_handler (allLocations, k) (Some currentLocationBatch, done_flag, None) =
     (if done_flag
      then (allLocations @ currentLocationBatch,
            resume (Inr (allLocations @ currentLocationBatch)) k)
      else (allLocations @ currentLocationBatch, k))"

text \<open>
  \<^verbatim>\<open>let locations = try! await withCheckedThrowingContinuation { ... }\<close>: the function
  is not \<^verbatim>\<open>throws\<close>, and the forced try turns a continuation resumed with an error into
  a trap.
\<close>

definition getRouteLocations :: "route_store \<Rightarrow> HKWorkoutRoute \<Rightarrow> CLLocation list outcome" where
  "getRouteLocations store route =
     (case snd (foldl route_handler ([], Awaiting) (workoutRouteQuery store route)) of
        Awaiting \<Rightarrow> Suspended
      | Resumed (Inr locs) \<Rightarrow> Returned locs
      | Resumed (Inl error) \<Rightarrow> Trapped (ForcedTry error)
      | Misused \<Rightarrow> Trapped ContinuationMisuse)"

text \<open>
  \<^verbatim>\<open>location.distance(from: previousLocation)\<close> is the platform's distance primitive, the
  parameter \<open>distance_from\<close> (first argument the receiver).
\<close>

definition serializeLocation ::
  "(CLLocation \<Rightarrow> CLLocation \<Rightarrow> real) \<Rightarrow> CLLocation \<Rightarrow> CLLocation option \<Rightarrow> WorkoutRouteLocation" where
  "serializeLocation distance_from location previousLocation =
     \<lparr> altitude = cl_altitude location,
       course = cl_course location,
       date = cl_timestamp location,
       distance =
         (case previousLocation of
            Some previousLocation \<Rightarrow> Some (distance_from location previousLocation)
          | None \<Rightarrow> None),
       horizontalAccuracy = cl_horizontalAccuracy location,
       latitude = cl_latitude location,
       longitude = cl_longitude location,
       speed = cl_speed location,
       speedAccuracy = cl_speedAccuracy location,
       verticalAccuracy = cl_verticalAccuracy location \<rparr>"

text \<open>
  \<^verbatim>\<open>routeCLLocations.enumerated().map { (i, loc) in serializeLocation(location: loc,
  previousLocation: i == 0 ? nil : routeCLLocations[i - 1]) }\<close>
\<close>

definition serializeLocations ::
  "(CLLocation \<Rightarrow> CLLocation \<Rightarrow> real) \<Rightarrow> CLLocation list \<Rightarrow> WorkoutRouteLocation list" where
  "serializeLocations distance_from routeCLLocations =
     map (\<lambda>(i, loc).
            serializeLocation distance_from loc
              (if i = 0 then None else Some (routeCLLocations ! (i - 1))))
         (enumerate 0 routeCLLocations)"

text \<open>The \<^verbatim>\<open>for route in _routes\<close> loop of \<^verbatim>\<open>getSerializedWorkoutLocations\<close>.\<close>

fun serializeRoutes ::
  "'a metadata_api \<Rightarrow> (CLLocation \<Rightarrow> CLLocation \<Rightarrow> real) \<Rightarrow> route_store \<Rightarrow>
   HKWorkoutRoute list \<Rightarrow> WorkoutRoute list \<Rightarrow> WorkoutRoute list outcome" where
  "serializeRoutes api distance_from store [] allRoutes = Returned allRoutes"
| "serializeRoutes api distance_from store (route # rest) allRoutes =
     (let routeMetadata = serializeMetadata api (route_metadata route) in
      case getRouteLocations store route of
        Returned routeCLLocations \<Rightarrow>
          serializeRoutes api distance_from store rest
            (allRoutes @
             [\<lparr> locations = serializeLocations distance_from routeCLLocations,
                HKMetadataKeySyncIdentifier =
                  getString api routeMetadata ''HKMetadataKeySyncIdentifier'',
                HKMetadataKeySyncVersion =
                  getDouble api routeMetadata ''HKMetadataKeySyncVersion'' \<rparr>])
      | Threw e \<Rightarrow> Threw e
      | Trapped t \<Rightarrow> Trapped t
      | Suspended \<Rightarrow> Suspended)"

definition getSerializedWorkoutLocations ::
  "'a metadata_api \<Rightarrow> (CLLocation \<Rightarrow> CLLocation \<Rightarrow> real) \<Rightarrow> route_store \<Rightarrow> HKWorkout \<Rightarrow>
   WorkoutRoute list outcome" where
  "getSerializedWorkoutLocations api distance_from store workout =
     (case getWorkoutRoutesInternal store workout of
        Returned None \<Rightarrow> Threw (RuntimeError ''Unexpected empty response'')
      | Returned (Some routes) \<Rightarrow> serializeRoutes api distance_from store routes []
      | Threw e \<Rightarrow> Threw e
      | Trapped t \<Rightarrow> Trapped t
      | Suspended \<Rightarrow> Suspended)"

text \<open>\<^verbatim>\<open>WorkoutProxy.getWorkoutRoutes\<close>, the promise handed to the caller.\<close>

definition getWorkoutRoutes ::
  "'a metadata_api \<Rightarrow> (CLLocation \<Rightarrow> CLLocation \<Rightarrow> real) \<Rightarrow> route_store \<Rightarrow> HKWorkout \<Rightarrow>
   WorkoutRoute list promise" where
  "getWorkoutRoutes api distance_from store workout =
     Promise_async (getSerializedWorkoutLocations api distance_from store workout)"

subsection \<open>Effort scores\<close>

text \<open>
  The health store as the effort code uses it, over a store state \<open>'st\<close>: the result of
  the sample query for the effort samples related to a workout, the deletion of a sample,
  and the relation of a new effort sample to a workout. Each may fail and each returns
  the state it leaves.
\<close>

record 'st HKHealthStore =
  descriptor_result :: "HKWorkout \<Rightarrow> 'st \<Rightarrow> (swift_error + HKSample list) \<times> 'st"
  store_delete :: "HKSample \<Rightarrow> 'st \<Rightarrow> (swift_error + unit) \<times> 'st"
  relateWorkoutEffortSample :: "HKSample \<Rightarrow> HKWorkout \<Rightarrow> 'st \<Rightarrow> (swift_error + unit) \<times> 'st"

text \<open>\<^verbatim>\<open>samples.last\<close>, an optional.\<close>

fun last_option :: "'a list \<Rightarrow> 'a option" where
  "last_option [] = None"
| "last_option [x] = Some x"
| "last_option (x # y # ys) = last_option (y # ys)"

text \<open>
  \<^verbatim>\<open>if let lastSample = samples.last as? HKQuantitySample\<close>: the value of the last
  sample when it is a quantity sample, \<^verbatim>\<open>nil\<close> otherwise.
\<close>

definition getWorkoutEffortScoreInternal ::
  "'st HKHealthStore \<Rightarrow> HKWorkout \<Rightarrow> 'st \<Rightarrow> (swift_error + number option) \<times> 'st" where
  "getWorkoutEffortScoreInternal store workout st =
     (case descriptor_result store workout st of
        (Inl e, st') \<Rightarrow> (Inl e, st')
      | (Inr samples, st') \<Rightarrow>
          (case last_option samples of
             Some (QuantitySample lastSample) \<Rightarrow> (Inr (Some (quantity lastSample)), st')
           | _ \<Rightarrow> (Inr None, st')))"

text \<open>
  The deletion loop: \<^verbatim>\<open>try? await store.delete(sample)\<close> drops the result of each
  deletion and goes on.
\<close>

fun delete_existing :: "'st HKHealthStore \<Rightarrow> HKSample list \<Rightarrow> 'st \<Rightarrow> 'st" where
  "delete_existing store [] st = st"
| "delete_existing store (sample # rest) st =
     delete_existing store rest (snd (store_delete store sample st))"

text \<open>The message of the range check prints the score; the printing is the parameter
  \<open>describe\<close>.\<close>

definition out_of_range_error :: "(number \<Rightarrow> string) \<Rightarrow> number \<Rightarrow> swift_error" where
  "out_of_range_error describe score =
     RuntimeError (''[react-native-healthkit] Workout effort score must be between 1 and 10, got: ''
                   @ describe score)"

definition setWorkoutEffortScoreInternal ::
  "(number \<Rightarrow> string) \<Rightarrow> 'st HKHealthStore \<Rightarrow> HKWorkout \<Rightarrow> number \<Rightarrow> 'st \<Rightarrow>
   (swift_error + bool) \<times> 'st" where
  "setWorkoutEffortScoreInternal describe store workout score st =
     (if \<not> (num_ge score (Finite 1) \<and> num_le score (Finite 10))
      then (Inl (out_of_range_error describe score), st)
      else
        (case descriptor_result store workout st of
           (Inl e, st1) \<Rightarrow> (Inl e, st1)
         | (Inr samples, st1) \<Rightarrow>
             (let st2 = delete_existing store samples st1;
                  effort = QuantitySample
                    \<lparr> quantity = score, sample_start = startDate workout,
                      sample_end = endDate workout \<rparr>
              in case relateWorkoutEffortSample store effort workout st2 of
                   (Inl e, st3) \<Rightarrow> (Inl e, st3)
                 | (Inr _, st3) \<Rightarrow> (Inr True, st3))))"

text \<open>
  A store that counts the calls made to it: the state is paired with a counter that every
  operation increments. The code above is not changed.
\<close>

definition counted :: "'st HKHealthStore \<Rightarrow> ('st \<times> nat) HKHealthStore" where
  "counted store =
     \<lparr> descriptor_result =
         (\<lambda>workout (st, n). case descriptor_result store workout st of (r, st') \<Rightarrow> (r, (st', Suc n))),
       store_delete =
         (\<lambda>sample (st, n). case store_delete store sample st of (r, st') \<Rightarrow> (r, (st', Suc n))),
       relateWorkoutEffortSample =
         (\<lambda>sample workout (st, n).
            case relateWorkoutEffortSample store sample workout st of
              (r, st') \<Rightarrow> (r, (st', Suc n))) \<rparr>"

text \<open>
  The ordering the effort code relies on and does not enforce itself: once a sample has
  been related to a workout, the query for that workout succeeds and lists it last.
\<close>

definition newest_last :: "'st HKHealthStore \<Rightarrow> bool" where
  "newest_last store \<longleftrightarrow>
     (\<forall>sample workout st st'.
        relateWorkoutEffortSample store sample workout st = (Inr (), st') \<longrightarrow>
        (\<exists>samples st''. descriptor_result store workout st' = (Inr (samples @ [sample]), st'')))"

text \<open>
  A small store for running the effort code: the samples related to the workout in the
  order they were related, and whether the store lets the application delete samples. A
  refused deletion fails and leaves the samples as they are.
\<close>

record list_store =
  related :: "HKSample list"
  deletable :: bool

definition list_store_ops :: "list_store HKHealthStore" where
  "list_store_ops =
     \<lparr> descriptor_result = (\<lambda>workout st. (Inr (related st), st)),
       store_delete =
         (\<lambda>sample st.
            if deletable st then (Inr (), st\<lparr>related := remove1 sample (related st)\<rparr>)
            else (Inl (HKError ''Authorization is not determined''), st)),
       relateWorkoutEffortSample =
         (\<lambda>sample workout st. (Inr (), st\<lparr>related := related st @ [sample]\<rparr>)) \<rparr>"

text \<open>
  The same store with the other ordering: its query lists the samples newest first, a new
  sample being put in front of those related before.
\<close>

definition newest_first_store_ops :: "list_store HKHealthStore" where
  "newest_first_store_ops =
     \<lparr> descriptor_result = (\<lambda>workout st. (Inr (related st), st)),
       store_delete =
         (\<lambda>sample st.
            if deletable st then (Inr (), st\<lparr>related := remove1 sample (related st)\<rparr>)
            else (Inl (HKError ''Authorization is not determined''), st)),
       relateWorkoutEffortSample =
         (\<lambda>sample workout st. (Inr (), st\<lparr>related := sample # related st\<rparr>)) \<rparr>"

section \<open>Inputs for running the code\<close>

text \<open>An invocation of the route handler that delivers a batch and no error.\<close>

definition delivery :: "CLLocation list \<times> bool \<Rightarrow> route_callback" where
  "delivery d = (Some (fst d), snd d, None)"

definition a_workout :: HKWorkout where
  "a_workout = \<lparr> workout_uuid = ''6F1C'', startDate = 0, endDate = 1800 \<rparr>"

definition a_route :: HKWorkoutRoute where
  "a_route = \<lparr> route_uuid = ''A1'', route_metadata = None \<rparr>"

definition no_metadata :: "unit metadata_api" where
  "no_metadata =
     \<lparr> serializeMetadata = (\<lambda>_. ()), getString = (\<lambda>_ _. None), getDouble = (\<lambda>_ _. None) \<rparr>"

text \<open>A location fix on a line, and the distance along that line.\<close>

definition fix_at :: "real \<Rightarrow> CLLocation" where
  "fix_at x =
     \<lparr> cl_altitude = 0, cl_course = 0, cl_timestamp = x, cl_horizontalAccuracy = 5,
       cl_latitude = x, cl_longitude = 0, cl_speed = 1, cl_speedAccuracy = 1,
       cl_verticalAccuracy = 5 \<rparr>"

definition gap :: "CLLocation \<Rightarrow> CLLocation \<Rightarrow> real" where
  "gap a b = \<bar>cl_latitude a - cl_latitude b\<bar>"

definition effort_sample :: "real \<Rightarrow> HKSample" where
  "effort_sample v =
     QuantitySample \<lparr> quantity = Finite v, sample_start = 0, sample_end = 1800 \<rparr>"

text \<open>Route stores: one route whose locations arrive in batches of 3, 2, 0 and 4 with
  \<^verbatim>\<open>done\<close> on the last; the same with \<^verbatim>\<open>done\<close> never set; one route whose query
  reports an error after a first batch; a workout with no sample at all; a query that
  answers with a sample that is not a route; a query whose handler gets neither samples
  nor an error.\<close>

definition four_batches :: "(CLLocation list \<times> bool) list" where
  "four_batches =
     [([fix_at 1, fix_at 2, fix_at 3], False),
      ([fix_at 4, fix_at 5], False),
      ([], False),
      ([fix_at 6, fix_at 7, fix_at 8, fix_at 9], True)]"

definition batched_store :: route_store where
  "batched_store =
     \<lparr> anchoredObjectQuery = (\<lambda>_. (Some [RouteSample a_route], None)),
       workoutRouteQuery = (\<lambda>_. map delivery four_batches) \<rparr>"

definition unfinished_store :: route_store where
  "unfinished_store =
     \<lparr> anchoredObjectQuery = (\<lambda>_. (Some [RouteSample a_route], None)),
       workoutRouteQuery = (\<lambda>_. map delivery [([fix_at 1], False), ([fix_at 2], False)]) \<rparr>"

definition failing_route_store :: route_store where
  "failing_route_store =
     \<lparr> anchoredObjectQuery = (\<lambda>_. (Some [RouteSample a_route], None)),
       workoutRouteQuery =
         (\<lambda>_. [(Some [fix_at 1, fix_at 2], False, None),
               (None, False, Some (HKError ''Protected health data is inaccessible''))]) \<rparr>"

definition no_sample_store :: route_store where
  "no_sample_store =
     \<lparr> anchoredObjectQuery = (\<lambda>_. (Some [], None)), workoutRouteQuery = (\<lambda>_. []) \<rparr>"

definition stray_sample_store :: route_store where
  "stray_sample_store =
     \<lparr> anchoredObjectQuery = (\<lambda>_. (Some [OtherSample ''HKWorkout''], None)),
       workoutRouteQuery = (\<lambda>_. []) \<rparr>"

definition silent_store :: route_store where
  "silent_store =
     \<lparr> anchoredObjectQuery = (\<lambda>_. (None, None)), workoutRouteQuery = (\<lambda>_. []) \<rparr>"

text \<open>A proxy both of whose native methods reject with a given value.\<close>

definition rejecting_proxy :: "thrown \<Rightarrow> unit WorkoutProxy" where
  "rejecting_proxy e =
     \<lparr> native_getWorkoutEffortScore = (\<lambda>w. (Inl e, w)),
       native_setWorkoutEffortScore = (\<lambda>score w. (Inl e, w)) \<rparr>"

definition selector_error :: thrown where
  "selector_error =
     Error ''-[WorkoutProxy setWorkoutEffortScore:]: unrecognized selector sent to instance''"

definition denied_error :: thrown where
  "denied_error = Error ''Authorization is not determined''"

text \<open>A proxy whose native methods succeed.\<close>

definition accepting_proxy :: "unit WorkoutProxy" where
  "accepting_proxy =
     \<lparr> native_getWorkoutEffortScore = (\<lambda>w. (Inr (Some (Finite 7)), w)),
       native_setWorkoutEffortScore = (\<lambda>score w. (Inr True, w)) \<rparr>"

section \<open>Properties of the TypeScript wrapper\<close>

lemma Number_isInteger_iff:
  "Number_isInteger s \<longleftrightarrow> (\<exists>n::int. s = Finite (of_int n))"
  by (cases s) simp_all

lemma isValid_iff_int:
  "isValidWorkoutEffortScore s \<longleftrightarrow> (\<exists>n::int. s = Finite (of_int n) \<and> 1 \<le> n \<and> n \<le> 10)"
  unfolding isValidWorkoutEffortScore_def num_ge_def Number_isInteger_iff
  by (cases s) auto

lemma isValid_finite:
  "isValidWorkoutEffortScore (Finite r) \<longleftrightarrow> r \<in> \<int> \<and> 1 \<le> r \<and> r \<le> 10"
  by (auto simp: isValidWorkoutEffortScore_def num_ge_def Ints_def)

lemma counting_set:
  "native_setWorkoutEffortScore (counting workout) score (w, n) =
     (case native_setWorkoutEffortScore workout score w of (r, w') \<Rightarrow> (r, (w', Suc n)))"
  by (simp add: counting_def)

lemma set_invalid:
  "\<not> isValidWorkoutEffortScore score \<Longrightarrow>
   setWorkoutEffortScore toString workout score w = (Inl (invalid_score_error toString score), w)"
  by (simp add: setWorkoutEffortScore_def)

lemma set_valid_counts:
  "isValidWorkoutEffortScore score \<Longrightarrow>
   snd (snd (setWorkoutEffortScore toString (counting workout) score (w, n))) = Suc n"
  by (simp add: setWorkoutEffortScore_def counting_set split: prod.splits sum.splits)

text \<open>
  C7. A number is a valid effort score exactly when it is an integer from 1 to 10 (NaN and
  the infinities are not). \<^verbatim>\<open>setWorkoutEffortScore\<close> leaves the count of native calls
  where it was exactly when the score is not valid, and it is exactly then that it rejects
  with the validation error, the count and the world behind the proxy untouched.
\<close>

theorem setWorkoutEffortScore_validates_locally:
  "(isValidWorkoutEffortScore s \<longleftrightarrow> (\<exists>k::int. s = Finite (of_int k) \<and> 1 \<le> k \<and> k \<le> 10))
   \<and> (snd (snd (setWorkoutEffortScore toString (counting workout) s (w, n))) = n
        \<longleftrightarrow> \<not> isValidWorkoutEffortScore s)
   \<and> (setWorkoutEffortScore toString (counting workout) s (w, n)
          = (Inl (invalid_score_error toString s), (w, n))
        \<longleftrightarrow> \<not> isValidWorkoutEffortScore s)"
proof (intro conjI)
  show "isValidWorkoutEffortScore s \<longleftrightarrow> (\<exists>k::int. s = Finite (of_int k) \<and> 1 \<le> k \<and> k \<le> 10)"
    by (rule isValid_iff_int)
  show "snd (snd (setWorkoutEffortScore toString (counting workout) s (w, n))) = n
        \<longleftrightarrow> \<not> isValidWorkoutEffortScore s"
    using set_valid_counts [of s toString workout w n] set_invalid [of s toString "counting workout" "(w, n)"]
    by (cases "isValidWorkoutEffortScore s") simp_all
  show "setWorkoutEffortScore toString (counting workout) s (w, n)
          = (Inl (invalid_score_error toString s), (w, n))
        \<longleftrightarrow> \<not> isValidWorkoutEffortScore s"
    using set_valid_counts [of s toString workout w n] set_invalid [of s toString "counting workout" "(w, n)"]
    by (cases "isValidWorkoutEffortScore s") auto
qed

theorem setWorkoutEffortScore_validates_locally_witness:
  "isValidWorkoutEffortScore (Finite 7)
   \<and> setWorkoutEffortScore (\<lambda>_. []) (counting accepting_proxy) (Finite 7) ((), 0)
       = (Inr True, ((), 1))
   \<and> \<not> isValidWorkoutEffortScore (Finite 11)
   \<and> setWorkoutEffortScore (\<lambda>_. ''11'') (counting accepting_proxy) (Finite 11) ((), 0)
       = (Inl (invalid_score_error (\<lambda>_. ''11'') (Finite 11)), ((), 0))
   \<and> \<not> isValidWorkoutEffortScore (Finite (15 / 2))
   \<and> \<not> isValidWorkoutEffortScore (Finite 0)
   \<and> \<not> isValidWorkoutEffortScore NaN"
proof -
  have valid: "isValidWorkoutEffortScore (Finite 7)"
    and invalid: "\<not> isValidWorkoutEffortScore (Finite 11)"
      "\<not> isValidWorkoutEffortScore (Finite (15 / 2))"
      "\<not> isValidWorkoutEffortScore (Finite 0)"
      "\<not> isValidWorkoutEffortScore NaN"
    by (simp_all add: isValidWorkoutEffortScore_def num_ge_def)
  have run: "setWorkoutEffortScore (\<lambda>_. []) (counting accepting_proxy) (Finite 7) ((), 0)
       = (Inr True, ((), 1))"
    by (simp add: setWorkoutEffortScore_def valid counting_def accepting_proxy_def)
  from setWorkoutEffortScore_validates_locally
         [of "Finite 11" "\<lambda>_. ''11''" accepting_proxy "()" 0]
       valid invalid run
  show ?thesis by simp
qed

lemma unsupported_is_not_invalid: "unsupported_error \<noteq> invalid_score_error toString s"
  by (simp add: unsupported_error_def invalid_score_error_def)

text \<open>
  C8. When the native call rejects with an \<^verbatim>\<open>Error\<close> whose message includes
  ``unrecognized selector'', \<^verbatim>\<open>getWorkoutEffortScore\<close> resolves with \<^verbatim>\<open>null\<close> and
  \<^verbatim>\<open>setWorkoutEffortScore\<close>, for a valid score, rejects with the unsupported-platform
  error, which differs from the validation error of any score. Any other rejection of the
  native call is passed on as it is by both.
\<close>

theorem selector_error_is_mapped:
  "(native_getWorkoutEffortScore workout w = (Inl e, w') \<longrightarrow>
      getWorkoutEffortScore workout w =
        (if is_unrecognized_selector e then (Inr None, w') else (Inl e, w')))
   \<and> (isValidWorkoutEffortScore score \<and> native_setWorkoutEffortScore workout score w = (Inl e, w') \<longrightarrow>
      setWorkoutEffortScore toString workout score w =
        (if is_unrecognized_selector e then (Inl unsupported_error, w') else (Inl e, w')))
   \<and> unsupported_error \<noteq> invalid_score_error toString s"
  by (simp add: getWorkoutEffortScore_def setWorkoutEffortScore_def unsupported_is_not_invalid)

theorem selector_error_is_mapped_witness:
  "is_unrecognized_selector selector_error \<and> \<not> is_unrecognized_selector denied_error
   \<and> isValidWorkoutEffortScore (Finite 7)
   \<and> getWorkoutEffortScore (rejecting_proxy selector_error) () = (Inr None, ())
   \<and> getWorkoutEffortScore (rejecting_proxy denied_error) () = (Inl denied_error, ())
   \<and> setWorkoutEffortScore (\<lambda>_. []) (rejecting_proxy selector_error) (Finite 7) ()
        = (Inl unsupported_error, ())
   \<and> setWorkoutEffortScore (\<lambda>_. []) (rejecting_proxy denied_error) (Finite 7) ()
        = (Inl denied_error, ())
   \<and> unsupported_error \<noteq> invalid_score_error (\<lambda>_. []) (Finite 11)"
proof -
  have sel: "is_unrecognized_selector selector_error"
    and den: "\<not> is_unrecognized_selector denied_error"
    by (simp_all add: selector_error_def denied_error_def)
  have valid: "isValidWorkoutEffortScore (Finite 7)"
    by (simp add: isValidWorkoutEffortScore_def num_ge_def)
  have get1: "native_getWorkoutEffortScore (rejecting_proxy selector_error) () = (Inl selector_error, ())"
    and get2: "native_getWorkoutEffortScore (rejecting_proxy denied_error) () = (Inl denied_error, ())"
    and set1: "native_setWorkoutEffortScore (rejecting_proxy selector_error) (Finite 7) ()
                 = (Inl selector_error, ())"
    and set2: "native_setWorkoutEffortScore (rejecting_proxy denied_error) (Finite 7) ()
                 = (Inl denied_error, ())"
    by (simp_all add: rejecting_proxy_def)
  from selector_error_is_mapped
         [of "rejecting_proxy selector_error" "()" selector_error "()" "Finite 7" "\<lambda>_. []" "Finite 11"]
       selector_error_is_mapped
         [of "rejecting_proxy denied_error" "()" denied_error "()" "Finite 7" "\<lambda>_. []" "Finite 11"]
       sel den valid get1 get2 set1 set2
  show ?thesis by simp
qed

text \<open>
  C2. \<^verbatim>\<open>isWorkoutEffortSupported\<close> answers \<^verbatim>\<open>true\<close> on iOS 17.0, a version below
  18.0: its body is the constant \<^verbatim>\<open>true\<close>.
\<close>

theorem isWorkoutEffortSupported_on_ios_17: "isWorkoutEffortSupported (17, 0) = True"
  by (simp add: isWorkoutEffortSupported_def)

lemma isWorkoutEffortSupported_constant:
  "isWorkoutEffortSupported platform = isWorkoutEffortSupported platform'"
  by (simp add: isWorkoutEffortSupported_def)

section \<open>Properties of the route code\<close>

lemma foldl_batches:
  "\<forall>d\<in>set ds. \<not> snd d \<Longrightarrow>
   foldl route_handler (acc, k) (map delivery ds) = (acc @ concat (map fst ds), k)"
  by (induction ds arbitrary: acc) (simp_all add: delivery_def)

lemma foldl_batches_done:
  assumes "ds \<noteq> []" and "snd (last ds)" and "\<forall>d\<in>set (butlast ds). \<not> snd d"
  shows "foldl route_handler ([], Awaiting) (map delivery ds)
         = (concat (map fst ds), Resumed (Inr (concat (map fst ds))))"
proof -
  from assms(1) have split: "ds = butlast ds @ [last ds]" by simp
  have "foldl route_handler ([], Awaiting) (map delivery ds)
        = route_handler (foldl route_handler ([], Awaiting) (map delivery (butlast ds)))
            (delivery (last ds))"
    by (subst split) simp
  also have "\<dots> = route_handler (concat (map fst (butlast ds)), Awaiting) (delivery (last ds))"
    using foldl_batches [OF assms(3), of "[]" Awaiting] by simp
  also have "\<dots> = (concat (map fst (butlast ds)) @ fst (last ds),
                    Resumed (Inr (concat (map fst (butlast ds)) @ fst (last ds))))"
    using assms(2) by (simp add: delivery_def)
  also have "concat (map fst (butlast ds)) @ fst (last ds) = concat (map fst ds)"
    by (subst (3) split) simp
  finally show ?thesis .
qed

text \<open>
  C6. When every invocation of the route handler delivers a batch without an error, and
  \<^verbatim>\<open>done\<close> is set on the last invocation only, \<^verbatim>\<open>getRouteLocations\<close> returns the
  batches concatenated in the order they were delivered; as long as no invocation sets
  \<^verbatim>\<open>done\<close> it does not return.
\<close>

theorem batches_are_concatenated:
  assumes "workoutRouteQuery store route = map delivery ds"
  shows "((\<forall>d\<in>set ds. \<not> snd d) \<longrightarrow> getRouteLocations store route = Suspended)
       \<and> (ds \<noteq> [] \<and> snd (last ds) \<and> (\<forall>d\<in>set (butlast ds). \<not> snd d) \<longrightarrow>
            getRouteLocations store route = Returned (concat (map fst ds)))"
  using assms foldl_batches [of ds "[]" Awaiting] foldl_batches_done [of ds]
  by (auto simp: getRouteLocations_def)

theorem batches_are_concatenated_witness:
  "workoutRouteQuery batched_store a_route = map delivery four_batches
   \<and> map (length \<circ> fst) four_batches = [3, 2, 0, 4]
   \<and> map snd four_batches = [False, False, False, True]
   \<and> getRouteLocations batched_store a_route
       = Returned [fix_at 1, fix_at 2, fix_at 3, fix_at 4, fix_at 5, fix_at 6, fix_at 7,
                   fix_at 8, fix_at 9]
   \<and> workoutRouteQuery unfinished_store a_route
       = map delivery [([fix_at 1], False), ([fix_at 2], False)]
   \<and> getRouteLocations unfinished_store a_route = Suspended"
proof -
  have q1: "workoutRouteQuery batched_store a_route = map delivery four_batches"
    by (simp add: batched_store_def)
  have q2: "workoutRouteQuery unfinished_store a_route
              = map delivery [([fix_at 1], False), ([fix_at 2], False)]"
    by (simp add: unfinished_store_def)
  have shape: "map (length \<circ> fst) four_batches = [3, 2, 0, 4]"
              "map snd four_batches = [False, False, False, True]"
    by (simp_all add: four_batches_def)
  have done_last: "four_batches \<noteq> [] \<and> snd (last four_batches)
                   \<and> (\<forall>d\<in>set (butlast four_batches). \<not> snd d)"
    by (simp add: four_batches_def)
  have all_of_them: "concat (map fst four_batches)
      = [fix_at 1, fix_at 2, fix_at 3, fix_at 4, fix_at 5, fix_at 6, fix_at 7, fix_at 8, fix_at 9]"
    by (simp add: four_batches_def)
  from batches_are_concatenated [OF q1] done_last all_of_them
  have r1: "getRouteLocations batched_store a_route
       = Returned [fix_at 1, fix_at 2, fix_at 3, fix_at 4, fix_at 5, fix_at 6, fix_at 7,
                   fix_at 8, fix_at 9]"
    by simp
  from batches_are_concatenated [OF q2]
  have r2: "getRouteLocations unfinished_store a_route = Suspended"
    by simp
  from q1 q2 shape r1 r2 show ?thesis by simp
qed

lemma error_after_batches:
  assumes "\<forall>d\<in>set ds. \<not> snd d"
  shows "getRouteLocations
           \<lparr> anchoredObjectQuery = q,
             workoutRouteQuery = (\<lambda>_. map delivery ds @ [(batch, flag, Some e)]) \<rparr> route
         = Trapped (ForcedTry e)"
  using foldl_batches [OF assms, of "[]" Awaiting] by (simp add: getRouteLocations_def)

text \<open>
  C3. A route query that delivers a batch and then reports an error: the continuation is
  resumed with the error, the forced \<^verbatim>\<open>try!\<close> of \<^verbatim>\<open>getRouteLocations\<close> turns it into
  a trap, and the promise of \<^verbatim>\<open>getWorkoutRoutes\<close> is not rejected.
\<close>

theorem route_error_traps:
  "snd (foldl route_handler ([], Awaiting) (workoutRouteQuery failing_route_store a_route))
     = Resumed (Inl (HKError ''Protected health data is inaccessible''))
   \<and> getRouteLocations failing_route_store a_route
     = Trapped (ForcedTry (HKError ''Protected health data is inaccessible''))
   \<and> getWorkoutRoutes no_metadata gap failing_route_store a_workout
     = Crashed (ForcedTry (HKError ''Protected health data is inaccessible''))
   \<and> getWorkoutRoutes no_metadata gap failing_route_store a_workout
     \<noteq> Rejected (HKError ''Protected health data is inaccessible'')"
  by (simp add: getWorkoutRoutes_def getSerializedWorkoutLocations_def getWorkoutRoutesInternal_def
      getRouteLocations_def failing_route_store_def)

lemma as_HKWorkoutRoutes_all:
  "(\<forall>s\<in>set samples. \<exists>r. s = RouteSample r) \<Longrightarrow>
   as_HKWorkoutRoutes samples = Some (List.map_filter as_HKWorkoutRoute samples)"
  by (induction samples) (auto simp: List.map_filter_simps)

lemma as_HKWorkoutRoutes_stray:
  "\<not> (\<forall>s\<in>set samples. \<exists>r. s = RouteSample r) \<Longrightarrow> as_HKWorkoutRoutes samples = None"
proof (induction samples)
  case Nil
  then show ?case by simp
next
  case (Cons s ss)
  then show ?case by (cases s) (auto split: option.splits)
qed

text \<open>
  C4, the claim fails: the store answers the anchored query with one sample that is not a
  route; \<^verbatim>\<open>getWorkoutRoutes\<close> rejects with ``Unexpected empty response'' and does not
  resolve with the empty list.
\<close>

theorem stray_sample_rejects:
  "anchoredObjectQuery stray_sample_store a_workout = (Some [OtherSample ''HKWorkout''], None)
   \<and> getWorkoutRoutes no_metadata gap stray_sample_store a_workout
     = Rejected (RuntimeError ''Unexpected empty response'')
   \<and> getWorkoutRoutes no_metadata gap stray_sample_store a_workout \<noteq> Fulfilled []"
  by (simp add: getWorkoutRoutes_def getSerializedWorkoutLocations_def getWorkoutRoutesInternal_def
      stray_sample_store_def)

text \<open>
  C4, as amended. The samples of the anchored query are cast to routes all together: when
  every sample is a route, \<^verbatim>\<open>getWorkoutRoutes\<close> goes on with all of them, in the order
  returned, and with no sample at all it resolves with the empty list; when some sample is
  not a route it rejects with ``Unexpected empty response''.
\<close>

theorem routes_are_cast_together:
  assumes "anchoredObjectQuery store workout = (Some samples, None)"
  shows "getWorkoutRoutes api distance_from store workout =
           (if \<forall>s\<in>set samples. \<exists>r. s = RouteSample r
            then Promise_async
                   (serializeRoutes api distance_from store
                      (List.map_filter as_HKWorkoutRoute samples) [])
            else Rejected (RuntimeError ''Unexpected empty response''))
       \<and> (samples = [] \<longrightarrow> getWorkoutRoutes api distance_from store workout = Fulfilled [])"
proof (cases "\<forall>s\<in>set samples. \<exists>r. s = RouteSample r")
  case True
  from as_HKWorkoutRoutes_all [OF True] assms True show ?thesis
    by (auto simp: getWorkoutRoutes_def getSerializedWorkoutLocations_def
        getWorkoutRoutesInternal_def List.map_filter_simps)
next
  case False
  from as_HKWorkoutRoutes_stray [OF False] assms False show ?thesis
    by (auto simp: getWorkoutRoutes_def getSerializedWorkoutLocations_def
        getWorkoutRoutesInternal_def)
qed

theorem routes_are_cast_together_witness:
  "anchoredObjectQuery no_sample_store a_workout = (Some [], None)
   \<and> getWorkoutRoutes no_metadata gap no_sample_store a_workout = Fulfilled []
   \<and> anchoredObjectQuery stray_sample_store a_workout = (Some [OtherSample ''HKWorkout''], None)
   \<and> getWorkoutRoutes no_metadata gap stray_sample_store a_workout
       = Rejected (RuntimeError ''Unexpected empty response'')"
proof -
  have q1: "anchoredObjectQuery no_sample_store a_workout = (Some [], None)"
    by (simp add: no_sample_store_def)
  have q2: "anchoredObjectQuery stray_sample_store a_workout
              = (Some [OtherSample ''HKWorkout''], None)"
    by (simp add: stray_sample_store_def)
  from routes_are_cast_together [OF q1, of no_metadata gap]
       routes_are_cast_together [OF q2, of no_metadata gap] q1 q2
  show ?thesis by simp
qed

text \<open>
  C9. When the completion handler of the anchored query gets neither an error nor a list
  of samples, \<^verbatim>\<open>getWorkoutRoutesInternal\<close> throws ``Empty response'' and the promise of
  \<^verbatim>\<open>getWorkoutRoutes\<close> is rejected with it. When it gets the empty list and no error,
  nothing is thrown: the routes are the empty list and the promise resolves with it.
\<close>

theorem empty_response_is_rejected:
  "(anchoredObjectQuery store workout = (None, None) \<longrightarrow>
      getWorkoutRoutesInternal store workout = Threw (RuntimeError ''Empty response'')
      \<and> getWorkoutRoutes api distance_from store workout
          = Rejected (RuntimeError ''Empty response''))
   \<and> (anchoredObjectQuery store workout = (Some [], None) \<longrightarrow>
      getWorkoutRoutesInternal store workout = Returned (Some [])
      \<and> getWorkoutRoutes api distance_from store workout = Fulfilled [])"
  by (simp add: getWorkoutRoutes_def getSerializedWorkoutLocations_def getWorkoutRoutesInternal_def)

theorem empty_response_is_rejected_witness:
  "anchoredObjectQuery silent_store a_workout = (None, None)
   \<and> getWorkoutRoutesInternal silent_store a_workout = Threw (RuntimeError ''Empty response'')
   \<and> getWorkoutRoutes no_metadata gap silent_store a_workout
       = Rejected (RuntimeError ''Empty response'')
   \<and> anchoredObjectQuery no_sample_store a_workout = (Some [], None)
   \<and> getWorkoutRoutesInternal no_sample_store a_workout = Returned (Some [])
   \<and> getWorkoutRoutes no_metadata gap no_sample_store a_workout = Fulfilled []"
proof -
  have q1: "anchoredObjectQuery silent_store a_workout = (None, None)"
    by (simp add: silent_store_def)
  have q2: "anchoredObjectQuery no_sample_store a_workout = (Some [], None)"
    by (simp add: no_sample_store_def)
  from empty_response_is_rejected [of silent_store a_workout no_metadata gap]
       empty_response_is_rejected [of no_sample_store a_workout no_metadata gap] q1 q2
  show ?thesis by simp
qed

lemma serializeLocations_length: "length (serializeLocations f locs) = length locs"
  by (simp add: serializeLocations_def)

lemma serializeLocations_nth:
  "i < length locs \<Longrightarrow>
   serializeLocations f locs ! i =
     serializeLocation f (locs ! i) (if i = 0 then None else Some (locs ! (i - 1)))"
  by (simp add: serializeLocations_def nth_enumerate_eq)

lemma serializeRoutes_returned:
  "serializeRoutes api f store routes acc = Returned out \<Longrightarrow>
   \<exists>news. out = acc @ news \<and>
     list_all2 (\<lambda>route r. \<exists>locs. getRouteLocations store route = Returned locs
                              \<and> locations r = serializeLocations f locs) routes news"
proof (induction routes arbitrary: acc)
  case Nil
  then show ?case by simp
next
  case (Cons route rest)
  let ?new = "\<lambda>locs. \<lparr> locations = serializeLocations f locs,
      HKMetadataKeySyncIdentifier =
        getString api (serializeMetadata api (route_metadata route)) ''HKMetadataKeySyncIdentifier'',
      HKMetadataKeySyncVersion =
        getDouble api (serializeMetadata api (route_metadata route)) ''HKMetadataKeySyncVersion'' \<rparr>"
  from Cons.prems obtain locs where
    got: "getRouteLocations store route = Returned locs" and
    rec: "serializeRoutes api f store rest (acc @ [?new locs]) = Returned out"
    by (auto simp: Let_def split: outcome.splits)
  from Cons.IH [OF rec] obtain news where
    "out = (acc @ [?new locs]) @ news"
    and "list_all2 (\<lambda>route r. \<exists>locs. getRouteLocations store route = Returned locs
                              \<and> locations r = serializeLocations f locs) rest news"
    by blast
  with got show ?case by auto
qed

text \<open>
  C5. Every route that \<^verbatim>\<open>getSerializedWorkoutLocations\<close> returns is the serialization,
  position by position, of the locations \<^verbatim>\<open>getRouteLocations\<close> returned for a route of
  the store, in that order: the location at index 0 has no distance, and at every later
  index the distance is the platform's \<^verbatim>\<open>distance(from:)\<close> of that location from the
  one just before it.
\<close>

theorem route_distances:
  assumes "getSerializedWorkoutLocations api distance_from store workout = Returned routes"
    and "r \<in> set routes"
  shows "\<exists>route locs. getRouteLocations store route = Returned locs
           \<and> length (locations r) = length locs
           \<and> (\<forall>i<length locs.
                 locations r ! i =
                   serializeLocation distance_from (locs ! i)
                     (if i = 0 then None else Some (locs ! (i - 1)))
               \<and> distance (locations r ! i) =
                   (if i = 0 then None else Some (distance_from (locs ! i) (locs ! (i - 1)))))"
proof -
  from assms(1) obtain hk where "serializeRoutes api distance_from store hk [] = Returned routes"
    by (auto simp: getSerializedWorkoutLocations_def split: outcome.splits option.splits)
  from serializeRoutes_returned [OF this] have
    "list_all2 (\<lambda>route r. \<exists>locs. getRouteLocations store route = Returned locs
                              \<and> locations r = serializeLocations distance_from locs) hk routes"
    by simp
  with assms(2) obtain route locs where
    "getRouteLocations store route = Returned locs" and
    "locations r = serializeLocations distance_from locs"
    by (auto simp: list_all2_conv_all_nth in_set_conv_nth)
  then have "getRouteLocations store route = Returned locs
           \<and> length (locations r) = length locs
           \<and> (\<forall>i<length locs.
                 locations r ! i =
                   serializeLocation distance_from (locs ! i)
                     (if i = 0 then None else Some (locs ! (i - 1)))
               \<and> distance (locations r ! i) =
                   (if i = 0 then None else Some (distance_from (locs ! i) (locs ! (i - 1)))))"
    by (simp add: serializeLocations_length serializeLocations_nth serializeLocation_def)
  then show ?thesis by blast
qed

theorem route_distances_witness:
  "getSerializedWorkoutLocations no_metadata gap batched_store a_workout
     = Returned [\<lparr> locations = serializeLocations gap (concat (map fst four_batches)),
                   HKMetadataKeySyncIdentifier = None, HKMetadataKeySyncVersion = None \<rparr>]
   \<and> map distance (serializeLocations gap (concat (map fst four_batches)))
     = [None, Some 1, Some 1, Some 1, Some 1, Some 1, Some 1, Some 1, Some 1]
   \<and> (\<exists>route locs. getRouteLocations batched_store route = Returned locs
         \<and> length (serializeLocations gap (concat (map fst four_batches))) = length locs
         \<and> (\<forall>i<length locs.
               serializeLocations gap (concat (map fst four_batches)) ! i =
                 serializeLocation gap (locs ! i) (if i = 0 then None else Some (locs ! (i - 1)))
             \<and> distance (serializeLocations gap (concat (map fst four_batches)) ! i) =
                 (if i = 0 then None else Some (gap (locs ! i) (locs ! (i - 1))))))"
proof -
  let ?r = "\<lparr> locations = serializeLocations gap (concat (map fst four_batches)),
              HKMetadataKeySyncIdentifier = None, HKMetadataKeySyncVersion = None \<rparr>"
  have locs: "getRouteLocations batched_store a_route = Returned (concat (map fst four_batches))"
    by (simp add: getRouteLocations_def batched_store_def four_batches_def delivery_def)
  have anchored: "anchoredObjectQuery batched_store a_workout = (Some [RouteSample a_route], None)"
    by (simp add: batched_store_def)
  have run: "getSerializedWorkoutLocations no_metadata gap batched_store a_workout = Returned [?r]"
    by (simp add: getSerializedWorkoutLocations_def getWorkoutRoutesInternal_def anchored locs
        no_metadata_def)
  have member: "?r \<in> set [?r]" by simp
  have dists: "map distance (serializeLocations gap (concat (map fst four_batches)))
     = [None, Some 1, Some 1, Some 1, Some 1, Some 1, Some 1, Some 1, Some 1]"
    by (simp add: serializeLocations_def serializeLocation_def four_batches_def gap_def fix_at_def)
  from route_distances [OF run member] have
    "\<exists>route locs. getRouteLocations batched_store route = Returned locs
         \<and> length (serializeLocations gap (concat (map fst four_batches))) = length locs
         \<and> (\<forall>i<length locs.
               serializeLocations gap (concat (map fst four_batches)) ! i =
                 serializeLocation gap (locs ! i) (if i = 0 then None else Some (locs ! (i - 1)))
             \<and> distance (serializeLocations gap (concat (map fst four_batches)) ! i) =
                 (if i = 0 then None else Some (gap (locs ! i) (locs ! (i - 1)))))"
    by simp
  with run dists show ?thesis by simp
qed

section \<open>Properties of the effort-score code\<close>

lemma last_option_snoc: "last_option (xs @ [x]) = Some x"
  by (induction xs rule: last_option.induct) simp_all

lemma newest_last_list_store: "newest_last list_store_ops"
  by (auto simp: newest_last_def list_store_ops_def)

lemma delete_existing_counted:
  "snd (delete_existing (counted store) samples (st, n)) = n + length samples"
  by (induction samples arbitrary: st n) (auto simp: counted_def split: prod.splits)

lemma counted_simps:
  "descriptor_result (counted store) workout (st, n) =
     (case descriptor_result store workout st of (r, st') \<Rightarrow> (r, (st', Suc n)))"
  "relateWorkoutEffortSample (counted store) sample workout (st, n) =
     (case relateWorkoutEffortSample store sample workout st of (r, st') \<Rightarrow> (r, (st', Suc n)))"
  by (simp_all add: counted_def)

lemma delete_existing_foldl:
  "delete_existing store samples st = foldl (\<lambda>s x. snd (store_delete store x s)) st samples"
  by (induction samples arbitrary: st) simp_all

lemma set_in_range:
  assumes "num_ge score (Finite 1) \<and> num_le score (Finite 10)"
    and "descriptor_result store workout st = (Inr samples, st1)"
  shows "setWorkoutEffortScoreInternal describe store workout score st =
           (case relateWorkoutEffortSample store
                   (QuantitySample \<lparr> quantity = score, sample_start = startDate workout,
                                     sample_end = endDate workout \<rparr>)
                   workout (foldl (\<lambda>s x. snd (store_delete store x s)) st1 samples) of
              (Inl e, st3) \<Rightarrow> (Inl e, st3)
            | (Inr u, st3) \<Rightarrow> (Inr True, st3))"
  using assms by (simp add: setWorkoutEffortScoreInternal_def delete_existing_foldl)

lemma set_in_range_counted:
  assumes "num_ge score (Finite 1) \<and> num_le score (Finite 10)"
    and "descriptor_result store workout st = (Inr samples, st1)"
  shows "snd (snd (setWorkoutEffortScoreInternal describe (counted store) workout score (st, n)))
           = n + length samples + 2"
proof -
  obtain st2 n2 where d: "delete_existing (counted store) samples (st1, Suc n) = (st2, n2)"
    by (cases "delete_existing (counted store) samples (st1, Suc n)")
  with delete_existing_counted [of store samples st1 "Suc n"]
  have n2: "n2 = Suc n + length samples"
    by simp
  from assms d n2 show ?thesis
    by (simp add: setWorkoutEffortScoreInternal_def counted_simps split: prod.splits sum.splits)
qed

lemma set_succeeded:
  assumes "setWorkoutEffortScoreInternal describe store workout score st = (Inr True, st')"
  shows "\<exists>st2. relateWorkoutEffortSample store
                  (QuantitySample \<lparr> quantity = score, sample_start = startDate workout,
                                    sample_end = endDate workout \<rparr>) workout st2 = (Inr (), st')"
  using assms
  by (auto simp: setWorkoutEffortScoreInternal_def Let_def split: if_splits prod.splits sum.splits)

text \<open>
  On the store that refuses every deletion, for every score in the range and whatever
  samples are there already, the set succeeds, leaves the old samples and adds the new one
  last, and the get that follows reads the new score.
\<close>

lemma refused_deletions_do_not_abort:
  assumes "num_ge score (Finite 1) \<and> num_le score (Finite 10)"
  shows "setWorkoutEffortScoreInternal describe list_store_ops workout score
           \<lparr> related = samples, deletable = False \<rparr>
         = (Inr True,
            \<lparr> related = samples @
                 [QuantitySample \<lparr> quantity = score, sample_start = startDate workout,
                                   sample_end = endDate workout \<rparr>],
              deletable = False \<rparr>)"
proof -
  have stay: "foldl (\<lambda>s x. snd (store_delete list_store_ops x s))
                \<lparr> related = samples, deletable = False \<rparr> xs
              = \<lparr> related = samples, deletable = False \<rparr>" for xs
    by (induction xs) (simp_all add: list_store_ops_def)
  have q: "descriptor_result list_store_ops workout \<lparr> related = samples, deletable = False \<rparr>
             = (Inr samples, \<lparr> related = samples, deletable = False \<rparr>)"
    by (simp add: list_store_ops_def)
  show ?thesis
    by (simp add: set_in_range [OF assms q] stay) (simp add: list_store_ops_def)
qed

text \<open>
  C1, the claim fails: on a store whose query lists the newest sample first and which
  refuses deletions, setting 3 and then 9 succeeds both times, and the get that follows
  returns 3, the value of the last sample listed.
\<close>

theorem newest_first_store_reads_stale_score:
  "setWorkoutEffortScoreInternal (\<lambda>_. []) newest_first_store_ops a_workout (Finite 3)
       \<lparr> related = [], deletable = False \<rparr>
     = (Inr True, \<lparr> related = [effort_sample 3], deletable = False \<rparr>)
   \<and> setWorkoutEffortScoreInternal (\<lambda>_. []) newest_first_store_ops a_workout (Finite 9)
       \<lparr> related = [effort_sample 3], deletable = False \<rparr>
     = (Inr True, \<lparr> related = [effort_sample 9, effort_sample 3], deletable = False \<rparr>)
   \<and> fst (getWorkoutEffortScoreInternal newest_first_store_ops a_workout
            \<lparr> related = [effort_sample 9, effort_sample 3], deletable = False \<rparr>)
     = Inr (Some (Finite 3))
   \<and> fst (getWorkoutEffortScoreInternal newest_first_store_ops a_workout
            \<lparr> related = [effort_sample 9, effort_sample 3], deletable = False \<rparr>)
     \<noteq> Inr (Some (Finite 9))"
  by (simp add: setWorkoutEffortScoreInternal_def getWorkoutEffortScoreInternal_def
      newest_first_store_ops_def num_ge_def a_workout_def effort_sample_def)

text \<open>
  C1, as amended. On a store that lists a sample last once it has been related to the
  workout: when \<^verbatim>\<open>setWorkoutEffortScoreInternal\<close> returns \<^verbatim>\<open>true\<close> for a score, the
  \<^verbatim>\<open>getWorkoutEffortScoreInternal\<close> that follows returns that score. On every store:
  for a score in the range, once the query has returned the existing samples, the set
  attempts the deletion of each of them in turn, whatever the deletions answer (one store
  call for each, besides the query and the relation), and its result is the result of the
  relation alone: \<^verbatim>\<open>true\<close> when the relation succeeds, its error otherwise.
\<close>

theorem effort_round_trip:
  "(newest_last store
      \<and> setWorkoutEffortScoreInternal describe store workout score st = (Inr True, st') \<longrightarrow>
      fst (getWorkoutEffortScoreInternal store workout st') = Inr (Some score))
   \<and> (num_ge score (Finite 1) \<and> num_le score (Finite 10)
      \<and> descriptor_result store workout st = (Inr samples, st1) \<longrightarrow>
      setWorkoutEffortScoreInternal describe store workout score st =
        (case relateWorkoutEffortSample store
                (QuantitySample \<lparr> quantity = score, sample_start = startDate workout,
                                  sample_end = endDate workout \<rparr>)
                workout (foldl (\<lambda>s x. snd (store_delete store x s)) st1 samples) of
           (Inl e, st3) \<Rightarrow> (Inl e, st3)
         | (Inr u, st3) \<Rightarrow> (Inr True, st3))
      \<and> snd (snd (setWorkoutEffortScoreInternal describe (counted store) workout score (st, n)))
          = n + length samples + 2)"
proof (intro conjI impI)
  assume h: "newest_last store
      \<and> setWorkoutEffortScoreInternal describe store workout score st = (Inr True, st')"
  let ?effort = "QuantitySample \<lparr> quantity = score, sample_start = startDate workout,
                      sample_end = endDate workout \<rparr>"
  from h set_succeeded [of describe store workout score st st'] obtain st2 where
    "relateWorkoutEffortSample store ?effort workout st2 = (Inr (), st')"
    by blast
  with h obtain xs st'' where
    "descriptor_result store workout st' = (Inr (xs @ [?effort]), st'')"
    unfolding newest_last_def by blast
  then show "fst (getWorkoutEffortScoreInternal store workout st') = Inr (Some score)"
    by (simp add: getWorkoutEffortScoreInternal_def last_option_snoc)
next
  assume h: "num_ge score (Finite 1) \<and> num_le score (Finite 10)
      \<and> descriptor_result store workout st = (Inr samples, st1)"
  then show "setWorkoutEffortScoreInternal describe store workout score st =
        (case relateWorkoutEffortSample store
                (QuantitySample \<lparr> quantity = score, sample_start = startDate workout,
                                  sample_end = endDate workout \<rparr>)
                workout (foldl (\<lambda>s x. snd (store_delete store x s)) st1 samples) of
           (Inl e, st3) \<Rightarrow> (Inl e, st3)
         | (Inr u, st3) \<Rightarrow> (Inr True, st3))"
    using set_in_range [of score store workout st samples st1 describe] by blast
  from h show "snd (snd (setWorkoutEffortScoreInternal describe (counted store) workout score
                           (st, n))) = n + length samples + 2"
    using set_in_range_counted [of score store workout st samples st1 describe n] by blast
qed

theorem effort_round_trip_witness:
  "newest_last list_store_ops
   \<and> num_ge (Finite 9) (Finite 1) \<and> num_le (Finite 9) (Finite 10)
   \<and> descriptor_result list_store_ops a_workout \<lparr> related = [effort_sample 3], deletable = False \<rparr>
     = (Inr [effort_sample 3], \<lparr> related = [effort_sample 3], deletable = False \<rparr>)
   \<and> store_delete list_store_ops (effort_sample 3)
        \<lparr> related = [effort_sample 3], deletable = False \<rparr>
     = (Inl (HKError ''Authorization is not determined''),
        \<lparr> related = [effort_sample 3], deletable = False \<rparr>)
   \<and> setWorkoutEffortScoreInternal (\<lambda>_. []) list_store_ops a_workout (Finite 9)
       \<lparr> related = [effort_sample 3], deletable = False \<rparr>
     = (Inr True, \<lparr> related = [effort_sample 3, effort_sample 9], deletable = False \<rparr>)
   \<and> snd (snd (setWorkoutEffortScoreInternal (\<lambda>_. []) (counted list_store_ops) a_workout
                  (Finite 9) (\<lparr> related = [effort_sample 3], deletable = False \<rparr>, 0)))
     = 3
   \<and> fst (getWorkoutEffortScoreInternal list_store_ops a_workout
            \<lparr> related = [effort_sample 3, effort_sample 9], deletable = False \<rparr>)
     = Inr (Some (Finite 9))"
proof -
  have law: "newest_last list_store_ops" by (rule newest_last_list_store)
  have range: "num_ge (Finite 9) (Finite 1) \<and> num_le (Finite 9) (Finite 10)"
    by (simp add: num_ge_def)
  have query: "descriptor_result list_store_ops a_workout
                 \<lparr> related = [effort_sample 3], deletable = False \<rparr>
     = (Inr [effort_sample 3], \<lparr> related = [effort_sample 3], deletable = False \<rparr>)"
    by (simp add: list_store_ops_def)
  have refused: "store_delete list_store_ops (effort_sample 3)
        \<lparr> related = [effort_sample 3], deletable = False \<rparr>
     = (Inl (HKError ''Authorization is not determined''),
        \<lparr> related = [effort_sample 3], deletable = False \<rparr>)"
    by (simp add: list_store_ops_def)
  have relate: "relateWorkoutEffortSample list_store_ops
        (QuantitySample \<lparr> quantity = Finite 9, sample_start = startDate a_workout,
                          sample_end = endDate a_workout \<rparr>)
        a_workout \<lparr> related = [effort_sample 3], deletable = False \<rparr>
     = (Inr (), \<lparr> related = [effort_sample 3, effort_sample 9], deletable = False \<rparr>)"
    by (simp add: list_store_ops_def a_workout_def effort_sample_def)
  note inst = effort_round_trip
    [of list_store_ops "\<lambda>_. []" a_workout "Finite 9"
        "\<lparr> related = [effort_sample 3], deletable = False \<rparr>"
        "\<lparr> related = [effort_sample 3, effort_sample 9], deletable = False \<rparr>"
        "[effort_sample 3]" "\<lparr> related = [effort_sample 3], deletable = False \<rparr>" 0]
  from inst law range query have
    second: "setWorkoutEffortScoreInternal (\<lambda>_. []) list_store_ops a_workout (Finite 9)
       \<lparr> related = [effort_sample 3], deletable = False \<rparr>
     = (Inr True, \<lparr> related = [effort_sample 3, effort_sample 9], deletable = False \<rparr>)"
    and count: "snd (snd (setWorkoutEffortScoreInternal (\<lambda>_. []) (counted list_store_ops)
                  a_workout (Finite 9) (\<lparr> related = [effort_sample 3], deletable = False \<rparr>, 0)))
     = 3"
    by (simp_all add: refused relate)
  from inst law second have
    "fst (getWorkoutEffortScoreInternal list_store_ops a_workout
            \<lparr> related = [effort_sample 3, effort_sample 9], deletable = False \<rparr>)
     = Inr (Some (Finite 9))"
    by simp
  with law range query refused second count show ?thesis by simp
qed

lemma out_of_range_makes_no_call:
  "\<not> (num_ge score (Finite 1) \<and> num_le score (Finite 10)) \<Longrightarrow>
   setWorkoutEffortScoreInternal describe (counted store) workout score (st, n)
     = (Inl (out_of_range_error describe score), (st, n))"
  by (simp add: setWorkoutEffortScoreInternal_def)

text \<open>
  C10. The native check is the range alone: for every score from 1 to 10, integer or not,
  \<^verbatim>\<open>setWorkoutEffortScoreInternal\<close> passes its guard and calls the store (the count of
  store calls grows), while the wrapper's \<^verbatim>\<open>isValidWorkoutEffortScore\<close> accepts such a
  score exactly when it is an integer.
\<close>

theorem native_check_is_range_only:
  assumes "1 \<le> r" and "r \<le> 10"
  shows "n < snd (snd (setWorkoutEffortScoreInternal describe (counted store) workout
                         (Finite r) (st, n)))
       \<and> (isValidWorkoutEffortScore (Finite r) \<longleftrightarrow> r \<in> \<int>)"
proof
  have guard: "num_ge (Finite r) (Finite 1) \<and> num_le (Finite r) (Finite 10)"
    using assms by (simp add: num_ge_def)
  obtain q st1 where q: "descriptor_result store workout st = (q, st1)"
    by (cases "descriptor_result store workout st")
  show "n < snd (snd (setWorkoutEffortScoreInternal describe (counted store) workout
                         (Finite r) (st, n)))"
  proof (cases q)
    case (Inl e)
    with guard q show ?thesis
      by (simp add: setWorkoutEffortScoreInternal_def counted_simps)
  next
    case (Inr samples)
    obtain st2 n2 where d: "delete_existing (counted store) samples (st1, Suc n) = (st2, n2)"
      by (cases "delete_existing (counted store) samples (st1, Suc n)")
    with delete_existing_counted [of store samples st1 "Suc n"]
    have n2: "n2 = Suc n + length samples"
      by simp
    from guard q Inr d n2 show ?thesis
      by (simp add: setWorkoutEffortScoreInternal_def counted_simps
          split: prod.splits sum.splits)
  qed
  show "isValidWorkoutEffortScore (Finite r) \<longleftrightarrow> r \<in> \<int>"
    using assms by (simp add: isValid_finite)
qed

theorem native_check_is_range_only_witness:
  "(1::real) \<le> 15 / 2 \<and> (15 / 2 :: real) \<le> 10
   \<and> 0 < snd (snd (setWorkoutEffortScoreInternal (\<lambda>_. []) (counted list_store_ops) a_workout
                 (Finite (15 / 2)) (\<lparr> related = [], deletable = True \<rparr>, 0)))
   \<and> \<not> isValidWorkoutEffortScore (Finite (15 / 2))
   \<and> setWorkoutEffortScoreInternal (\<lambda>_. []) list_store_ops a_workout (Finite (15 / 2))
        \<lparr> related = [], deletable = True \<rparr>
      = (Inr True, \<lparr> related = [effort_sample (15 / 2)], deletable = True \<rparr>)"
proof -
  have lo: "(1::real) \<le> 15 / 2" and hi: "(15 / 2 :: real) \<le> 10" by simp_all
  have frac: "(15 / 2 :: real) \<notin> \<int>"
  proof
    assume "(15 / 2 :: real) \<in> \<int>"
    then obtain k :: int where "(15 / 2 :: real) = of_int k" by (auto simp: Ints_def)
    then have "(15::real) = of_int (2 * k)" by simp
    then have "(15::int) = 2 * k" by (metis of_int_eq_iff of_int_numeral)
    then show False by presburger
  qed
  have run: "setWorkoutEffortScoreInternal (\<lambda>_. []) list_store_ops a_workout (Finite (15 / 2))
        \<lparr> related = [], deletable = True \<rparr>
      = (Inr True, \<lparr> related = [effort_sample (15 / 2)], deletable = True \<rparr>)"
    by (simp add: setWorkoutEffortScoreInternal_def list_store_ops_def num_ge_def
        a_workout_def effort_sample_def)
  from native_check_is_range_only
         [OF lo hi, of 0 "\<lambda>_. []" list_store_ops a_workout "\<lparr> related = [], deletable = True \<rparr>"]
    lo hi frac run show ?thesis by simp
qed

end
